theory Spec2Isabelle
  imports Complex_Main "HOL-Library.AList" "HOL-Library.Sublist"
begin

section \<open>Attendance reconciliation (scriptAsist.py): the model\<close>

text \<open>
  The script reads three CSV files (official roster, form answers, meeting log), normalises
  the names, matches them by word overlap and marks every student of the roster present
  (\<open>'A'\<close>) or absent (\<open>'F'\<close>). The model below follows the source function by function.

  Conventions of the model.
  \<^item> A Python \<open>str\<close> is a list of Unicode code points (\<open>pystr\<close>); \<open>str ''abc''\<close> is the
    text of an ASCII literal. The whitespace class is that of \<open>str.isspace\<close> over all of
    Unicode. Upper-casing is written out for the code points below U+0100; beyond them it
    is data of the Python runtime and a parameter of the model (\<open>ucd\<close>).
  \<^item> A Python \<open>float\<close> is a \<open>rat\<close>: the rounding of floating-point division, infinities and
    NaN are not modelled. The scores compared in the matcher are quotients of word counts,
    which binary floating point orders as the rationals do for any realistic name list.
  \<^item> An exception is a value \<open>Inl e\<close> of the result type; \<open>Inr v\<close> is a normal return.
  \<^item> A \<open>dict\<close> is an association list in insertion order: assigning to a key that is
    present replaces its value in place, assigning to a new key appends it
    (\<open>AList.update\<close>), and \<open>keys()\<close> is \<open>map fst\<close>.
\<close>

datatype error = ValueError | ZeroDivisionError | KeyError

subsection \<open>Characters and the string methods the script uses\<close>

type_synonym pystr = "nat list"

definition str :: "string \<Rightarrow> pystr" where
  "str s = map of_char s"

text \<open>\<open>str.isspace\<close>: the 29 code points for which it holds in CPython 3 (tab to carriage
  return, the separators U+001C to U+001F, space, U+0085, U+00A0, U+1680, U+2000 to
  U+200A, U+2028, U+2029, U+202F, U+205F, U+3000). \<open>str.strip()\<close>, \<open>str.split()\<close> and the
  class \<open>\s\<close> of a regular expression over \<open>str\<close> all use this class.\<close>

definition isspace :: "nat \<Rightarrow> bool" where
  "isspace c =
     (c \<in> set [0x09, 0x0A, 0x0B, 0x0C, 0x0D, 0x1C, 0x1D, 0x1E, 0x1F, 0x20, 0x85, 0xA0,
               0x1680, 0x2000, 0x2001, 0x2002, 0x2003, 0x2004, 0x2005, 0x2006, 0x2007,
               0x2008, 0x2009, 0x200A, 0x2028, 0x2029, 0x202F, 0x205F, 0x3000])"

text \<open>The upper-case image of one code point, as \<open>str.upper\<close> gives it: a..z, the Latin-1
  letters U+00E0 to U+00FE without the division sign U+00F7, the micro sign (to Greek
  capital mu), sharp s (to \<open>SS\<close>, two code points) and y with diaeresis (to U+0178); every
  other code point below U+0100 is its own image. Beyond U+00FF the image is read from the
  parameter \<open>ucd\<close>.\<close>

definition upper_char :: "(nat \<Rightarrow> pystr) \<Rightarrow> nat \<Rightarrow> pystr" where
  "upper_char ucd c =
     (if 0x61 \<le> c \<and> c \<le> 0x7A then [c - 0x20]
      else if c < 0x80 then [c]
      else if c = 0xB5 then [0x39C]
      else if c = 0xDF then [0x53, 0x53]
      else if 0xE0 \<le> c \<and> c \<le> 0xFE \<and> c \<noteq> 0xF7 then [c - 0x20]
      else if c = 0xFF then [0x178]
      else if c < 0x100 then [c]
      else ucd c)"

text \<open>\<open>name.upper()\<close>: the images of the code points, in order.\<close>

definition upper :: "(nat \<Rightarrow> pystr) \<Rightarrow> pystr \<Rightarrow> pystr" where
  "upper ucd s = concat (map (upper_char ucd) s)"

text \<open>A stand-in for the case mapping beyond U+00FF, for running examples: every code
  point is its own image. The examples keep to texts below U+0100, where the parameter is
  never consulted.\<close>

definition ucd_identity :: "nat \<Rightarrow> pystr" where
  "ucd_identity c = [c]"

text \<open>\<open>name.strip()\<close>: whitespace is removed at both ends.\<close>

definition strip :: "pystr \<Rightarrow> pystr" where
  "strip s = rev (dropWhile isspace (rev (dropWhile isspace s)))"

text \<open>\<open>s.split()\<close> without argument: the maximal runs of non-whitespace characters, in
  order; no empty word is produced. The first argument is the word read so far.\<close>

fun split_from :: "pystr \<Rightarrow> pystr \<Rightarrow> pystr list" where
  "split_from w [] = (if w = [] then [] else [w])"
| "split_from w (c # cs) =
     (if isspace c then (if w = [] then split_from [] cs else w # split_from [] cs)
      else split_from (w @ [c]) cs)"

definition split :: "pystr \<Rightarrow> pystr list" where
  "split s = split_from [] s"

text \<open>\<open>s.split(' ')\<close> with a separator: the text is cut at every occurrence of the
  separator and empty pieces are kept, so the result is never empty.\<close>

fun split_on :: "nat \<Rightarrow> pystr \<Rightarrow> pystr list" where
  "split_on sep [] = [[]]"
| "split_on sep (c # cs) =
     (if c = sep then [] # split_on sep cs
      else (case split_on sep cs of
              [] \<Rightarrow> [[c]]
            | w # ws \<Rightarrow> (c # w) # ws))"

text \<open>\<open>" ".join(parts)\<close>; \<open>0x20\<close> is the space.\<close>

fun join_space :: "pystr list \<Rightarrow> pystr" where
  "join_space [] = []"
| "join_space [p] = p"
| "join_space (p # q # ps) = p @ 0x20 # join_space (q # ps)"

subsection \<open>normalize_name (lines 25-35)\<close>

text \<open>\<open>re.sub(r'\s+', ' ', name)\<close>: scanning from the left, every maximal run of
  whitespace is replaced by one space.\<close>

function re_sub_spaces :: "pystr \<Rightarrow> pystr" where
  "re_sub_spaces [] = []"
| "re_sub_spaces (c # cs) =
     (if isspace c then 0x20 # re_sub_spaces (dropWhile isspace cs)
      else c # re_sub_spaces cs)"
  by pat_completeness auto
termination
  by (relation "measure length") (auto simp: length_dropWhile_le less_Suc_eq_le)

text \<open>The character class \<open>[.,;:'"]\<close> of the second substitution; \<open>0x27\<close> is the apostrophe
  and \<open>0x22\<close> the double quote.\<close>

definition is_special :: "nat \<Rightarrow> bool" where
  "is_special c = (c \<in> set (str ''.,;:'' @ [0x27, 0x22]))"

text \<open>\<open>re.sub(r'[.,;:\'"]', '', name)\<close>: every character of the class is deleted.\<close>

fun re_sub_special :: "pystr \<Rightarrow> pystr" where
  "re_sub_special [] = []"
| "re_sub_special (c # cs) = (if is_special c then re_sub_special cs else c # re_sub_special cs)"

text \<open>The argument is \<open>None\<close> or a string; \<open>if not name\<close> holds for \<open>None\<close> and for the
  empty string.\<close>

fun normalize_name :: "(nat \<Rightarrow> pystr) \<Rightarrow> pystr option \<Rightarrow> pystr" where
  "normalize_name ucd None = []"
| "normalize_name ucd (Some name) =
     (if name = [] then []
      else re_sub_special (re_sub_spaces (upper ucd (strip name))))"

subsection \<open>convert_duration_to_hours (lines 8-23)\<close>

text \<open>\<open>'min' in parts[3]\<close> is a substring test (\<open>sublist\<close>); \<open>'h' in parts[1]\<close> tests for one
  character (\<open>0x68\<close>). Python's built-in \<open>float\<close> is not code of the script: the conversion
  takes it as the parameter \<open>pyfloat\<close>, which returns the number or raises \<open>ValueError\<close>.
  The argument \<open>None\<close> stands for a missing value, for which \<open>pd.isna\<close> holds.\<close>

definition convert_duration_to_hours ::
  "(pystr \<Rightarrow> error + rat) \<Rightarrow> pystr option \<Rightarrow> error + rat" where
  "convert_duration_to_hours pyfloat duration_str =
     (case duration_str of
        None \<Rightarrow> Inr 0
      | Some d \<Rightarrow>
          (let parts = split_on 0x20 d in
           case (if length parts \<ge> 2 \<and> 0x68 \<in> set (parts ! 1)
                 then pyfloat (parts ! 0) else Inr 0) of
             Inl e \<Rightarrow> Inl e
           | Inr hours \<Rightarrow>
               (case (if length parts \<ge> 4 \<and> sublist (str ''min'') (parts ! 3)
                      then pyfloat (parts ! 2) else Inr 0) of
                  Inl e \<Rightarrow> Inl e
                | Inr minutes \<Rightarrow> Inr (hours + minutes / 60))))"

text \<open>A fragment of \<open>float\<close> for running examples: an unsigned decimal integer numeral
  is read as its value, every other text is rejected. (Python accepts more spellings:
  signs, a fraction, an exponent, \<open>inf\<close>, \<open>nan\<close>. The examples below use only plain
  numerals and texts with letters that no spelling of a number has.)\<close>

definition digit_of :: "nat \<Rightarrow> nat option" where
  "digit_of c = map_of (zip (str ''0123456789'') [0, 1, 2, 3, 4, 5, 6, 7, 8, 9]) c"

fun digits_from :: "nat \<Rightarrow> pystr \<Rightarrow> nat option" where
  "digits_from n [] = Some n"
| "digits_from n (c # cs) =
     (case digit_of c of None \<Rightarrow> None | Some d \<Rightarrow> digits_from (10 * n + d) cs)"

definition float_numeral :: "pystr \<Rightarrow> error + rat" where
  "float_numeral s =
     (if s = [] then Inl ValueError
      else (case digits_from 0 s of None \<Rightarrow> Inl ValueError | Some n \<Rightarrow> Inr (of_nat n)))"

subsection \<open>find_matching_name (lines 37-66)\<close>

text \<open>Lines 54-60: the score of one candidate against the word set of the target. The
  division raises \<open>ZeroDivisionError\<close> when both word sets are empty.\<close>

definition name_score :: "pystr set \<Rightarrow> pystr \<Rightarrow> error + rat" where
  "name_score target_words name =
     (let name_words = set (split name);
          common_words = target_words \<inter> name_words;
          m = max (card target_words) (card name_words)
      in if m = 0 then Inl ZeroDivisionError
         else Inr (of_nat (card common_words) / of_nat m))"

text \<open>Lines 53-66: the loop over the candidates, with \<open>best_match\<close> and \<open>best_score\<close> as
  loop state.\<close>

fun match_loop ::
  "pystr set \<Rightarrow> pystr list \<Rightarrow> pystr option \<Rightarrow> rat \<Rightarrow> error + pystr option" where
  "match_loop target_words [] best_match best_score = Inr best_match"
| "match_loop target_words (name # names) best_match best_score =
     (case name_score target_words name of
        Inl e \<Rightarrow> Inl e
      | Inr score \<Rightarrow>
          (if score > best_score \<and> score > 1 / 2
           then match_loop target_words names (Some name) score
           else match_loop target_words names best_match best_score))"

definition find_matching_name :: "pystr \<Rightarrow> pystr list \<Rightarrow> error + pystr option" where
  "find_matching_name target_name name_list =
     (if target_name = [] then Inr None
      else if target_name \<in> set name_list then Inr (Some target_name)
      else match_loop (set (split target_name)) name_list None 0)"

subsection \<open>process_attendance (lines 68-204)\<close>

record student =
  apellidos :: pystr
  nombres :: pystr
  nombre_completo :: pystr
  nombre_normalizado :: pystr
  asistencia :: pystr
  en_formulario :: bool
  horas_meet :: rat

record attendance_state =
  official_students :: "student list"
  form_attendees :: "(pystr \<times> pystr) list"
  meet_attendance :: "(pystr \<times> rat) list"

text \<open>Lines 87-100: one student per roster row with at least two cells, unless both names
  are blank.\<close>

definition new_student :: "(nat \<Rightarrow> pystr) \<Rightarrow> pystr \<Rightarrow> pystr \<Rightarrow> student" where
  "new_student ucd a n =
     \<lparr>apellidos = a, nombres = n,
      nombre_completo = a @ str '' '' @ n,
      nombre_normalizado = normalize_name ucd (Some (a @ str '' '' @ n)),
      asistencia = str ''F'', en_formulario = False, horas_meet = 0\<rparr>"

fun load_official_students :: "(nat \<Rightarrow> pystr) \<Rightarrow> pystr list list \<Rightarrow> student list" where
  "load_official_students ucd [] = []"
| "load_official_students ucd (row # rows) =
     (if length row \<ge> 2 then
        (let a = (if row ! 0 \<noteq> [] then strip (row ! 0) else []);
             n = (if row ! 1 \<noteq> [] then strip (row ! 1) else [])
         in if a \<noteq> [] \<or> n \<noteq> [] then new_student ucd a n # load_official_students ucd rows
            else load_official_students ucd rows)
      else load_official_students ucd rows)"

text \<open>Lines 127-130: what one form row contributes: nothing when the row is skipped, or
  the normalised name and the name as written. \<open>name_col_index\<close> is the column found in
  the header.\<close>

definition form_row :: "(nat \<Rightarrow> pystr) \<Rightarrow> nat \<Rightarrow> pystr list \<Rightarrow> (pystr \<times> pystr) option" where
  "form_row ucd name_col_index row =
     (if length row > name_col_index then
        (let student_name = strip (row ! name_col_index)
         in if student_name \<noteq> []
            then Some (normalize_name ucd (Some student_name), student_name)
            else None)
      else None)"

text \<open>Lines 126-131: the form index; line 131 stores the name under its normalised form.\<close>

fun form_loop ::
  "(nat \<Rightarrow> pystr) \<Rightarrow> nat \<Rightarrow> pystr list list \<Rightarrow> (pystr \<times> pystr) list \<Rightarrow>
   (pystr \<times> pystr) list" where
  "form_loop ucd name_col_index [] form = form"
| "form_loop ucd name_col_index (row # rows) form =
     (case form_row ucd name_col_index row of
        None \<Rightarrow> form_loop ucd name_col_index rows form
      | Some (normalized_name, student_name) \<Rightarrow>
          form_loop ucd name_col_index rows (AList.update normalized_name student_name form))"

text \<open>Lines 165-179: what one meeting row contributes: nothing when the row is skipped,
  or the normalised name and the hours. \<open>max(name_cols)\<close> raises \<open>ValueError\<close> on an empty
  list; a duration that \<open>float\<close> rejects raises too.\<close>

definition meet_row ::
  "(pystr \<Rightarrow> error + rat) \<Rightarrow> (nat \<Rightarrow> pystr) \<Rightarrow> nat list \<Rightarrow> nat \<Rightarrow> pystr list \<Rightarrow>
   error + (pystr \<times> rat) option"
  where
  "meet_row pyfloat ucd name_cols duration_col row =
     (if name_cols = [] then Inl ValueError
      else if length row \<le> max (Max (set name_cols)) duration_col then Inr None
      else
        (let name_parts = map (\<lambda>i. strip (row ! i)) (filter (\<lambda>i. i < length row) name_cols);
             name = join_space (filter (\<lambda>p. p \<noteq> []) name_parts)
         in if name = [] \<or> prefix (str ''MONITOR'') (upper ucd name) \<or>
               prefix (str ''SUPERVISOR'') (upper ucd name)
            then Inr None
            else
              (let duration = (if duration_col < length row then row ! duration_col
                               else str ''0 h 0 min'')
               in case convert_duration_to_hours pyfloat (Some duration) of
                    Inl e \<Rightarrow> Inl e
                  | Inr hours \<Rightarrow> Inr (Some (normalize_name ucd (Some name), hours)))))"

text \<open>Lines 164-180: the meeting index; line 180 stores the hours under the normalised
  name. An exception leaves the loop and the run is abandoned.\<close>

fun meet_loop ::
  "(pystr \<Rightarrow> error + rat) \<Rightarrow> (nat \<Rightarrow> pystr) \<Rightarrow> nat list \<Rightarrow> nat \<Rightarrow> pystr list list \<Rightarrow>
   (pystr \<times> rat) list \<Rightarrow> error + (pystr \<times> rat) list" where
  "meet_loop pyfloat ucd name_cols duration_col [] meet = Inr meet"
| "meet_loop pyfloat ucd name_cols duration_col (row # rows) meet =
     (case meet_row pyfloat ucd name_cols duration_col row of
        Inl e \<Rightarrow> Inl e
      | Inr None \<Rightarrow> meet_loop pyfloat ucd name_cols duration_col rows meet
      | Inr (Some (normalized_name, hours)) \<Rightarrow>
          meet_loop pyfloat ucd name_cols duration_col rows
            (AList.update normalized_name hours meet))"

text \<open>Lines 190-204: the body of the reconciliation loop for one student. \<open>if form_match:\<close>
  holds for a returned string that is not empty.\<close>

definition truthy :: "pystr option \<Rightarrow> bool" where
  "truthy r = (case r of None \<Rightarrow> False | Some s \<Rightarrow> s \<noteq> [])"

definition process_student ::
  "(pystr \<times> pystr) list \<Rightarrow> (pystr \<times> rat) list \<Rightarrow> rat \<Rightarrow> student \<Rightarrow> error + student"
  where
  "process_student form meet min_required_hours st =
     (let normalized_name = nombre_normalizado st in
      case find_matching_name normalized_name (map fst form) of
        Inl e \<Rightarrow> Inl e
      | Inr form_match \<Rightarrow>
          (let st1 = (if truthy form_match then st\<lparr>en_formulario := True\<rparr> else st) in
           case find_matching_name normalized_name (map fst meet) of
             Inl e \<Rightarrow> Inl e
           | Inr meet_match \<Rightarrow>
               (case (case meet_match of
                        None \<Rightarrow> Inr st1
                      | Some k \<Rightarrow>
                          (if k = [] then Inr st1
                           else (case map_of meet k of
                                   None \<Rightarrow> Inl KeyError
                                 | Some h \<Rightarrow> Inr (st1\<lparr>horas_meet := h\<rparr>)))) of
                  Inl e \<Rightarrow> Inl e
                | Inr st2 \<Rightarrow>
                    Inr (if en_formulario st2 \<and> horas_meet st2 \<ge> min_required_hours
                         then st2\<lparr>asistencia := str ''A''\<rparr> else st2))))"

text \<open>Lines 189-204: the loop over the roster, in order; each student record is updated
  in place, the two indexes are only read.\<close>

fun reconcile_students ::
  "(pystr \<times> pystr) list \<Rightarrow> (pystr \<times> rat) list \<Rightarrow> rat \<Rightarrow> student list \<Rightarrow>
   error + student list" where
  "reconcile_students form meet min_required_hours [] = Inr []"
| "reconcile_students form meet min_required_hours (st # sts) =
     (case process_student form meet min_required_hours st of
        Inl e \<Rightarrow> Inl e
      | Inr st' \<Rightarrow>
          (case reconcile_students form meet min_required_hours sts of
             Inl e \<Rightarrow> Inl e
           | Inr sts' \<Rightarrow> Inr (st' # sts')))"

definition reconcile :: "rat \<Rightarrow> attendance_state \<Rightarrow> error + attendance_state" where
  "reconcile min_required_hours s =
     (case reconcile_students (form_attendees s) (meet_attendance s) min_required_hours
             (official_students s) of
        Inl e \<Rightarrow> Inl e
      | Inr sts \<Rightarrow> Inr (s\<lparr>official_students := sts\<rparr>))"

text \<open>Steps 1 to 4 of \<open>process_attendance\<close> on rows that are already read; the column
  positions found in the headers are parameters.\<close>

definition process_attendance ::
  "(pystr \<Rightarrow> error + rat) \<Rightarrow> (nat \<Rightarrow> pystr) \<Rightarrow> pystr list list \<Rightarrow> nat \<Rightarrow> pystr list list \<Rightarrow>
   nat list \<Rightarrow> nat \<Rightarrow> pystr list list \<Rightarrow> rat \<Rightarrow> error + attendance_state" where
  "process_attendance pyfloat ucd official_rows name_col_index form_rows
       name_cols duration_col meet_rows min_required_hours =
     (case meet_loop pyfloat ucd name_cols duration_col meet_rows [] of
        Inl e \<Rightarrow> Inl e
      | Inr meet \<Rightarrow>
          reconcile min_required_hours
            \<lparr>official_students = load_official_students ucd official_rows,
             form_attendees = form_loop ucd name_col_index form_rows [],
             meet_attendance = meet\<rparr>)"

subsection \<open>The normaliser as the specification words it\<close>






subsection \<open>The rows that reach the indexes\<close>

text \<open>The entries that the rows of a file contribute, in file order: the list the
  last-write-wins statements are phrased with. For the meeting log an exception in any row
  is the result.\<close>

fun form_entries :: "(nat \<Rightarrow> pystr) \<Rightarrow> nat \<Rightarrow> pystr list list \<Rightarrow> (pystr \<times> pystr) list" where
  "form_entries ucd name_col_index [] = []"
| "form_entries ucd name_col_index (row # rows) =
     (case form_row ucd name_col_index row of
        None \<Rightarrow> form_entries ucd name_col_index rows
      | Some kv \<Rightarrow> kv # form_entries ucd name_col_index rows)"

fun meet_entries ::
  "(pystr \<Rightarrow> error + rat) \<Rightarrow> (nat \<Rightarrow> pystr) \<Rightarrow> nat list \<Rightarrow> nat \<Rightarrow> pystr list list \<Rightarrow>
   error + (pystr \<times> rat) list" where
  "meet_entries pyfloat ucd name_cols duration_col [] = Inr []"
| "meet_entries pyfloat ucd name_cols duration_col (row # rows) =
     (case meet_row pyfloat ucd name_cols duration_col row of
        Inl e \<Rightarrow> Inl e
      | Inr None \<Rightarrow> meet_entries pyfloat ucd name_cols duration_col rows
      | Inr (Some kv) \<Rightarrow>
          (case meet_entries pyfloat ucd name_cols duration_col rows of
             Inl e \<Rightarrow> Inl e
           | Inr kvs \<Rightarrow> Inr (kv # kvs)))"

subsection \<open>The score as the specification writes it\<close>

text \<open>The number of common words over the larger of the two word counts, as a plain
  quotient (0 when both word sets are empty, where the source raises).\<close>

definition spec_score :: "pystr \<Rightarrow> pystr \<Rightarrow> rat" where
  "spec_score target candidate =
     of_nat (card (set (split target) \<inter> set (split candidate))) /
     of_nat (max (card (set (split target))) (card (set (split candidate))))"

section \<open>Properties\<close>

lemmas string_defs = str_def split_def isspace_def upper_def upper_char_def strip_def
  is_special_def

subsection \<open>The matcher on fixed inputs\<close>

text \<open>
  Claim C5 states a score of 1/3 for the target \<open>JOHN SMITH\<close> and the candidate
  \<open>JOHN DOE\<close>. The code divides the one common word by the larger of the two word counts,
  which is 2, so the score is 1/2 and not 1/3.
\<close>

theorem john_doe_score_not_a_third:
  "name_score (set (split (str ''JOHN SMITH''))) (str ''JOHN DOE'') \<noteq> Inr (1 / 3)"
  by (simp add: name_score_def Let_def string_defs)

text \<open>
  Claim C5, amended: for the target \<open>JOHN SMITH\<close> and the single candidate \<open>JOHN DOE\<close> the
  score is 1/2, which is not strictly greater than the threshold 1/2, and
  \<open>find_matching_name\<close> returns no match.
\<close>

theorem john_doe_score_half_no_match:
  "name_score (set (split (str ''JOHN SMITH''))) (str ''JOHN DOE'') = Inr (1 / 2) \<and>
   \<not> ((1 / 2 :: rat) > 1 / 2) \<and>
   find_matching_name (str ''JOHN SMITH'') [str ''JOHN DOE''] = Inr None"
  by (simp add: find_matching_name_def name_score_def Let_def string_defs)

subsection \<open>The exact match\<close>

text \<open>
  Claim C6 says that a target that is among the candidates is returned, for every target.
  The empty target is among the candidates \<open>['']\<close>, and the guard of line 39 returns no
  match for it.
\<close>

theorem empty_target_not_returned:
  "str '''' \<in> set [str ''''] \<and>
   find_matching_name (str '''') [str ''''] \<noteq> Inr (Some (str ''''))"
  by (simp add: find_matching_name_def str_def)

text \<open>
  Claim C6, amended: for every non-empty target and every candidate list, if the target is
  among the candidates then \<open>find_matching_name\<close> returns the target itself, whatever the
  other candidates score; for the empty target it returns no match, whatever the
  candidates are (the empty string included).
\<close>

theorem exact_match_returned:
  "(target_name \<noteq> [] \<and> target_name \<in> set name_list \<longrightarrow>
      find_matching_name target_name name_list = Inr (Some target_name)) \<and>
   find_matching_name [] name_list = Inr None"
  by (simp add: find_matching_name_def)

text \<open>The target \<open>ANA\<close> behind a candidate that scores 1/3, and the empty target with the
  empty string among the candidates.\<close>

theorem exact_match_returned_witness:
  "str ''ANA'' \<noteq> [] \<and> str ''ANA'' \<in> set [str ''ANA GARCIA LOPEZ'', str ''ANA''] \<and>
   name_score (set (split (str ''ANA''))) (str ''ANA GARCIA LOPEZ'') = Inr (1 / 3) \<and>
   find_matching_name (str ''ANA'') [str ''ANA GARCIA LOPEZ'', str ''ANA'']
     = Inr (Some (str ''ANA'')) \<and>
   find_matching_name [] [[], str ''ANA''] = Inr None"
  using exact_match_returned [of "str ''ANA''" "[str ''ANA GARCIA LOPEZ'', str ''ANA'']"]
    exact_match_returned [of "[]" "[[], str ''ANA'']"]
  by (simp add: name_score_def Let_def string_defs)

subsection \<open>The normaliser\<close>

text \<open>
  Claim C3 says that \<open>normalize_name\<close> is idempotent. It is not: the punctuation is deleted
  after the whitespace has been collapsed, so \<open>A . B\<close> becomes \<open>A\<close>, two spaces, \<open>B\<close>, and
  a second pass collapses the two spaces.
\<close>

theorem normalize_name_not_idempotent:
  "normalize_name ucd (Some (str ''A . B'')) = str ''A  B'' \<and>
   normalize_name ucd (Some (normalize_name ucd (Some (str ''A . B'')))) = str ''A B''"
  by (simp add: string_defs)












subsection \<open>What the matcher returns, and when it returns\<close>

lemma name_score_half_common:
  assumes "name_score tw n = Inr sc" "sc > 1 / 2"
  shows "tw \<inter> set (split n) \<noteq> {}"
proof
  assume "tw \<inter> set (split n) = {}"
  with assms(1) have "sc = 0"
    by (auto simp: name_score_def Let_def split: if_splits)
  with assms(2) show False by simp
qed

lemma match_loop_result:
  "match_loop tw names bm bs = Inr (Some r) \<Longrightarrow>
   Some r = bm \<or> (r \<in> set names \<and> tw \<inter> set (split r) \<noteq> {})"
proof (induction names arbitrary: bm bs)
  case Nil
  then show ?case by simp
next
  case (Cons n names)
  from Cons.prems obtain sc where sc: "name_score tw n = Inr sc"
    by (cases "name_score tw n") auto
  show ?case
  proof (cases "sc > bs \<and> sc > 1 / 2")
    case True
    with Cons.prems sc have "match_loop tw names (Some n) sc = Inr (Some r)" by simp
    from Cons.IH [OF this] True sc show ?thesis
      by (auto dest: name_score_half_common)
  next
    case False
    with Cons.prems sc have "match_loop tw names bm bs = Inr (Some r)" by auto
    from Cons.IH [OF this] show ?thesis by auto
  qed
qed

lemma split_Nil: "split [] = []"
  by (simp add: split_def)

lemma find_matching_name_result:
  assumes "find_matching_name t names = Inr (Some r)"
  shows "r \<in> set names \<and> r \<noteq> [] \<and> (r \<noteq> t \<longrightarrow> set (split t) \<inter> set (split r) \<noteq> {})"
proof (cases "t = [] \<or> t \<in> set names")
  case True
  with assms show ?thesis by (auto simp: find_matching_name_def split: if_splits)
next
  case False
  with assms have "match_loop (set (split t)) names None 0 = Inr (Some r)"
    by (simp add: find_matching_name_def)
  from match_loop_result [OF this]
  have "r \<in> set names" "set (split t) \<inter> set (split r) \<noteq> {}" by auto
  moreover from this(2) have "r \<noteq> []" by (auto simp: split_Nil)
  ultimately show ?thesis by simp
qed

lemma name_score_returns:
  assumes "finite tw" "tw \<noteq> {}"
  shows "\<exists>sc. name_score tw n = Inr sc"
proof -
  from assms have "card tw > 0" by (simp add: card_gt_0_iff)
  then show ?thesis by (simp add: name_score_def Let_def)
qed

lemma match_loop_returns:
  assumes "finite tw" "tw \<noteq> {}"
  shows "\<exists>r. match_loop tw names bm bs = Inr r"
proof (induction names arbitrary: bm bs)
  case Nil
  then show ?case by simp
next
  case (Cons n names)
  from name_score_returns [OF assms] obtain sc where "name_score tw n = Inr sc" by blast
  with Cons.IH show ?case by simp
qed

lemma find_matching_name_returns:
  assumes "t = [] \<or> split t \<noteq> []"
  shows "\<exists>r. find_matching_name t names = Inr r"
proof (cases "t = [] \<or> t \<in> set names")
  case True
  then show ?thesis by (auto simp: find_matching_name_def)
next
  case False
  with assms have "set (split t) \<noteq> {}" by simp
  from match_loop_returns [OF _ this] False show ?thesis
    by (simp add: find_matching_name_def)
qed

subsection \<open>The reconciliation pass\<close>

lemma process_student_returns:
  assumes "nombre_normalizado st = [] \<or> split (nombre_normalizado st) \<noteq> []"
  shows "\<exists>st'. process_student form meet h st = Inr st'"
proof -
  from find_matching_name_returns [OF assms]
  obtain fm where fm: "find_matching_name (nombre_normalizado st) (map fst form) = Inr fm"
    by blast
  from find_matching_name_returns [OF assms]
  obtain mm where mm: "find_matching_name (nombre_normalizado st) (map fst meet) = Inr mm"
    by blast
  show ?thesis
  proof (cases mm)
    case None
    with fm mm show ?thesis by (simp add: process_student_def Let_def)
  next
    case (Some k)
    with mm find_matching_name_result have "k \<in> set (map fst meet)" by blast
    then obtain hv where "map_of meet k = Some hv"
      by (metis map_of_eq_None_iff not_Some_eq set_map)
    with fm mm Some show ?thesis by (simp add: process_student_def Let_def)
  qed
qed

lemma reconcile_students_returns:
  assumes "\<forall>st \<in> set sts. nombre_normalizado st = [] \<or> split (nombre_normalizado st) \<noteq> []"
  shows "\<exists>sts'. reconcile_students form meet h sts = Inr sts'"
  using assms
proof (induction sts)
  case Nil
  then show ?case by simp
next
  case (Cons st sts)
  then obtain sts' where 1: "reconcile_students form meet h sts = Inr sts'" by auto
  from Cons.prems process_student_returns [of st form meet h]
  obtain st' where "process_student form meet h st = Inr st'" by auto
  with 1 show ?case by simp
qed

lemma process_student_frame:
  assumes "process_student form meet h st = Inr st'"
  shows "apellidos st' = apellidos st \<and> nombres st' = nombres st \<and>
         nombre_completo st' = nombre_completo st \<and>
         nombre_normalizado st' = nombre_normalizado st"
  using assms
  by (auto simp: process_student_def Let_def split: sum.splits option.splits if_splits)

lemma process_student_only_three_fields:
  assumes "process_student form meet h st = Inr st'"
  shows "st' = st\<lparr>asistencia := asistencia st', en_formulario := en_formulario st',
                   horas_meet := horas_meet st'\<rparr>"
  using assms
  by (auto simp: process_student_def Let_def split: sum.splits option.splits if_splits)

lemma str_F_neq_A: "str ''F'' \<noteq> str ''A''"
  by (simp add: str_def)

lemma process_student_decision:
  assumes "process_student form meet h st = Inr st'" "asistencia st = str ''F''"
  shows "(asistencia st' = str ''A'' \<longleftrightarrow> en_formulario st' \<and> horas_meet st' \<ge> h) \<and>
         (asistencia st' = str ''A'' \<or> asistencia st' = str ''F'')"
  using assms
  by (auto simp: process_student_def Let_def str_F_neq_A split: sum.splits option.splits if_splits)

lemma reconcile_students_list_all2:
  "reconcile_students form meet h sts = Inr sts' \<Longrightarrow>
   list_all2 (\<lambda>st st'. process_student form meet h st = Inr st') sts sts'"
proof (induction sts arbitrary: sts')
  case Nil
  then show ?case by simp
next
  case (Cons st sts)
  then show ?case by (auto split: sum.splits)
qed

lemma load_official_students_initial:
  "st \<in> set (load_official_students ucd rows) \<Longrightarrow>
   asistencia st = str ''F'' \<and> \<not> en_formulario st \<and> horas_meet st = 0"
  by (induction rows) (auto simp: new_student_def Let_def split: if_splits)

lemma reconcile_returns:
  assumes "\<forall>st \<in> set (official_students s).
             nombre_normalizado st = [] \<or> split (nombre_normalizado st) \<noteq> []"
  shows "\<exists>s'. reconcile h s = Inr s'"
proof -
  from reconcile_students_returns [OF assms]
  obtain sts' where
    "reconcile_students (form_attendees s) (meet_attendance s) h (official_students s) = Inr sts'"
    by blast
  then show ?thesis by (simp add: reconcile_def)
qed

lemma reconcile_list_all2:
  assumes "reconcile h s = Inr s'"
  shows "list_all2 (\<lambda>st st'. process_student (form_attendees s) (meet_attendance s) h st = Inr st')
           (official_students s) (official_students s') \<and>
         form_attendees s' = form_attendees s \<and> meet_attendance s' = meet_attendance s"
proof -
  from assms obtain sts' where
    1: "reconcile_students (form_attendees s) (meet_attendance s) h (official_students s) = Inr sts'"
    and 2: "s' = s\<lparr>official_students := sts'\<rparr>"
    by (cases "reconcile_students (form_attendees s) (meet_attendance s) h (official_students s)")
       (auto simp: reconcile_def)
  from reconcile_students_list_all2 [OF 1] 2 show ?thesis by simp
qed

lemma list_all2_rightD:
  "list_all2 P xs ys \<Longrightarrow> y \<in> set ys \<Longrightarrow> \<exists>x \<in> set xs. P x y"
  by (induction rule: list_all2_induct) auto

text \<open>
  Claim C1: for every roster loaded from rows (every student starts absent, not registered,
  with 0 hours) and every form and meeting index, after the reconciliation pass each
  student's \<open>asistencia\<close> is \<open>'A'\<close> if and only if \<open>en_formulario\<close> is true and
  \<open>horas_meet >= min_required_hours\<close>, and is \<open>'F'\<close> in every other case. The pass ends
  normally whenever every normalised name of the roster is empty or has a word (see the
  matcher for the one input on which it raises).
\<close>

theorem attendance_decision_rule:
  "((\<forall>st \<in> set (load_official_students ucd rows).
       nombre_normalizado st = [] \<or> split (nombre_normalizado st) \<noteq> []) \<longrightarrow>
    (\<exists>s'. reconcile min_required_hours
            \<lparr>official_students = load_official_students ucd rows,
             form_attendees = form, meet_attendance = meet\<rparr> = Inr s')) \<and>
   (\<forall>s'. reconcile min_required_hours
            \<lparr>official_students = load_official_students ucd rows,
             form_attendees = form, meet_attendance = meet\<rparr> = Inr s' \<longrightarrow>
      (\<forall>st \<in> set (official_students s').
         (asistencia st = str ''A'' \<longleftrightarrow>
            en_formulario st \<and> horas_meet st \<ge> min_required_hours) \<and>
         (asistencia st = str ''A'' \<or> asistencia st = str ''F'')))"
proof -
  let ?s = "\<lparr>official_students = load_official_students ucd rows,
             form_attendees = form, meet_attendance = meet\<rparr>"
  have ret: "\<exists>s'. reconcile min_required_hours ?s = Inr s'"
    if "\<forall>st \<in> set (load_official_students ucd rows).
            nombre_normalizado st = [] \<or> split (nombre_normalizado st) \<noteq> []"
  proof (rule reconcile_returns)
    from that show "\<forall>st \<in> set (official_students ?s).
       nombre_normalizado st = [] \<or> split (nombre_normalizado st) \<noteq> []"
      by simp
  qed
  have dec: "(asistencia st' = str ''A'' \<longleftrightarrow>
            en_formulario st' \<and> horas_meet st' \<ge> min_required_hours) \<and>
         (asistencia st' = str ''A'' \<or> asistencia st' = str ''F'')"
    if run: "reconcile min_required_hours ?s = Inr s'"
      and mem: "st' \<in> set (official_students s')" for s' st'
  proof -
    from reconcile_list_all2 [OF run]
    have "list_all2 (\<lambda>st st'. process_student form meet min_required_hours st = Inr st')
          (load_official_students ucd rows) (official_students s')"
      by simp
    from list_all2_rightD [OF this mem]
    obtain st where st: "st \<in> set (load_official_students ucd rows)"
      and step: "process_student form meet min_required_hours st = Inr st'"
      by blast
    from load_official_students_initial [OF st] have "asistencia st = str ''F''" by simp
    from process_student_decision [OF step this] show ?thesis .
  qed
  from ret dec show ?thesis by blast
qed

text \<open>A roster of three: registered with 4.5 hours, registered with no meeting entry, and
  999 meeting hours without registration, at a threshold of 4 hours.\<close>

theorem attendance_decision_rule_witness:
  "\<exists>s'. reconcile 4
     \<lparr>official_students =
        load_official_students ucd_identity
          [[str ''GARCIA'', str ''ANA''], [str ''PEREZ'', str ''LUIS''],
           [str ''DIAZ'', str ''EVA'']],
      form_attendees =
        [(str ''ANA GARCIA'', str ''Ana Garcia''), (str ''PEREZ LUIS'', str ''Perez Luis'')],
      meet_attendance = [(str ''GARCIA ANA'', 9 / 2), (str ''DIAZ EVA'', 999)]\<rparr> = Inr s' \<and>
     map en_formulario (official_students s') = [True, True, False] \<and>
     map horas_meet (official_students s') = [9 / 2, 0, 999] \<and>
     map asistencia (official_students s') = [str ''A'', str ''F'', str ''F''] \<and>
     list_all (\<lambda>st. (asistencia st = str ''A'') = (en_formulario st \<and> horas_meet st \<ge> 4))
       (official_students s')"
proof -
  let ?s = "\<lparr>official_students =
        load_official_students ucd_identity
          [[str ''GARCIA'', str ''ANA''], [str ''PEREZ'', str ''LUIS''],
           [str ''DIAZ'', str ''EVA'']],
      form_attendees =
        [(str ''ANA GARCIA'', str ''Ana Garcia''), (str ''PEREZ LUIS'', str ''Perez Luis'')],
      meet_attendance = [(str ''GARCIA ANA'', 9 / 2), (str ''DIAZ EVA'', 999)]\<rparr>"
  let ?s' = "\<lparr>official_students =
        [\<lparr>apellidos = str ''GARCIA'', nombres = str ''ANA'', nombre_completo = str ''GARCIA ANA'',
          nombre_normalizado = str ''GARCIA ANA'', asistencia = str ''A'', en_formulario = True,
          horas_meet = 9 / 2\<rparr>,
         \<lparr>apellidos = str ''PEREZ'', nombres = str ''LUIS'', nombre_completo = str ''PEREZ LUIS'',
          nombre_normalizado = str ''PEREZ LUIS'', asistencia = str ''F'', en_formulario = True,
          horas_meet = 0\<rparr>,
         \<lparr>apellidos = str ''DIAZ'', nombres = str ''EVA'', nombre_completo = str ''DIAZ EVA'',
          nombre_normalizado = str ''DIAZ EVA'', asistencia = str ''F'', en_formulario = False,
          horas_meet = 999\<rparr>],
      form_attendees =
        [(str ''ANA GARCIA'', str ''Ana Garcia''), (str ''PEREZ LUIS'', str ''Perez Luis'')],
      meet_attendance = [(str ''GARCIA ANA'', 9 / 2), (str ''DIAZ EVA'', 999)]\<rparr>"
  have run: "reconcile 4 ?s = Inr ?s'"
    by (simp add: reconcile_def process_student_def find_matching_name_def name_score_def
        new_student_def truthy_def Let_def string_defs)
  from attendance_decision_rule
    [of ucd_identity
        "[[str ''GARCIA'', str ''ANA''], [str ''PEREZ'', str ''LUIS''], [str ''DIAZ'', str ''EVA'']]" 4
        "[(str ''ANA GARCIA'', str ''Ana Garcia''), (str ''PEREZ LUIS'', str ''Perez Luis'')]"
        "[(str ''GARCIA ANA'', 9 / 2), (str ''DIAZ EVA'', 999)]"] run
  have "\<forall>st \<in> set (official_students ?s').
          (asistencia st = str ''A'') = (en_formulario st \<and> horas_meet st \<ge> 4)"
    by blast
  then have "list_all (\<lambda>st. (asistencia st = str ''A'') = (en_formulario st \<and> horas_meet st \<ge> 4))
       (official_students ?s')"
    unfolding list_all_iff .
  with run show ?thesis by simp
qed

text \<open>
  Claim C9: the reconciliation pass changes nothing but the three fields \<open>asistencia\<close>,
  \<open>en_formulario\<close> and \<open>horas_meet\<close> of each student. For every state, when the pass ends
  the students stand in the same order and number as before, each equal to the student
  it was up to these three fields (so \<open>apellidos\<close>, \<open>nombres\<close>, \<open>nombre_completo\<close> and
  \<open>nombre_normalizado\<close> are unchanged), and the form and meeting indexes are unchanged.
  The pass ends normally whenever every normalised name of the roster is empty or has a
  word.
\<close>

theorem reconcile_frame:
  "((\<forall>st \<in> set (official_students s).
       nombre_normalizado st = [] \<or> split (nombre_normalizado st) \<noteq> []) \<longrightarrow>
    (\<exists>s'. reconcile min_required_hours s = Inr s')) \<and>
   (\<forall>s'. reconcile min_required_hours s = Inr s' \<longrightarrow>
      list_all2
        (\<lambda>st st'. st' = st\<lparr>asistencia := asistencia st', en_formulario := en_formulario st',
                             horas_meet := horas_meet st'\<rparr>)
        (official_students s) (official_students s') \<and>
      length (official_students s') = length (official_students s) \<and>
      map apellidos (official_students s') = map apellidos (official_students s) \<and>
      map nombres (official_students s') = map nombres (official_students s) \<and>
      map nombre_completo (official_students s') = map nombre_completo (official_students s) \<and>
      map nombre_normalizado (official_students s') =
        map nombre_normalizado (official_students s) \<and>
      form_attendees s' = form_attendees s \<and>
      meet_attendance s' = meet_attendance s)"
proof (intro conjI allI impI)
  assume "\<forall>st \<in> set (official_students s).
       nombre_normalizado st = [] \<or> split (nombre_normalizado st) \<noteq> []"
  then show "\<exists>s'. reconcile min_required_hours s = Inr s'"
    by (rule reconcile_returns)
next
  fix s'
  assume run: "reconcile min_required_hours s = Inr s'"
  from reconcile_list_all2 [OF run]
  have steps: "list_all2
      (\<lambda>st st'. process_student (form_attendees s) (meet_attendance s) min_required_hours st
         = Inr st') (official_students s) (official_students s')"
    and form: "form_attendees s' = form_attendees s"
    and meet: "meet_attendance s' = meet_attendance s"
    by simp_all
  show "form_attendees s' = form_attendees s" by (rule form)
  show "meet_attendance s' = meet_attendance s" by (rule meet)
  from steps show "length (official_students s') = length (official_students s)"
    by (simp add: list_all2_lengthD)
  from steps show "list_all2
        (\<lambda>st st'. st' = st\<lparr>asistencia := asistencia st', en_formulario := en_formulario st',
                             horas_meet := horas_meet st'\<rparr>)
        (official_students s) (official_students s')"
    by (rule list_all2_mono) (rule process_student_only_three_fields)
  have fld: "map f (official_students s') = map f (official_students s)"
    if "\<And>st st'. process_student (form_attendees s) (meet_attendance s) min_required_hours st
         = Inr st' \<Longrightarrow> f st' = f st" for f :: "student \<Rightarrow> pystr"
    using steps that by (induction rule: list_all2_induct) auto
  show "map apellidos (official_students s') = map apellidos (official_students s)"
    by (rule fld) (simp add: process_student_frame)
  show "map nombres (official_students s') = map nombres (official_students s)"
    by (rule fld) (simp add: process_student_frame)
  show "map nombre_completo (official_students s') = map nombre_completo (official_students s)"
    by (rule fld) (simp add: process_student_frame)
  show "map nombre_normalizado (official_students s') =
        map nombre_normalizado (official_students s)"
    by (rule fld) (simp add: process_student_frame)
qed

theorem reconcile_frame_witness:
  "\<exists>s'. reconcile 4
     \<lparr>official_students =
        [new_student ucd_identity (str ''GARCIA'') (str ''ANA''),
         new_student ucd_identity (str ''PEREZ'') (str ''LUIS'')],
      form_attendees = [(str ''ANA GARCIA'', str ''Ana Garcia'')],
      meet_attendance = [(str ''GARCIA ANA'', 9 / 2)]\<rparr> = Inr s' \<and>
     map asistencia (official_students s') = [str ''A'', str ''F''] \<and>
     map apellidos (official_students s') = [str ''GARCIA'', str ''PEREZ''] \<and>
     map nombres (official_students s') = [str ''ANA'', str ''LUIS''] \<and>
     map nombre_completo (official_students s') = [str ''GARCIA ANA'', str ''PEREZ LUIS''] \<and>
     map nombre_normalizado (official_students s') = [str ''GARCIA ANA'', str ''PEREZ LUIS''] \<and>
     form_attendees s' = [(str ''ANA GARCIA'', str ''Ana Garcia'')] \<and>
     meet_attendance s' = [(str ''GARCIA ANA'', 9 / 2)]"
proof -
  let ?s = "\<lparr>official_students =
        [new_student ucd_identity (str ''GARCIA'') (str ''ANA''),
         new_student ucd_identity (str ''PEREZ'') (str ''LUIS'')],
      form_attendees = [(str ''ANA GARCIA'', str ''Ana Garcia'')],
      meet_attendance = [(str ''GARCIA ANA'', 9 / 2)]\<rparr>"
  have names: "\<forall>st \<in> set (official_students ?s).
       nombre_normalizado st = [] \<or> split (nombre_normalizado st) \<noteq> []"
    by (simp add: new_student_def string_defs)
  with reconcile_frame [of ?s 4] obtain s' where run: "reconcile 4 ?s = Inr s'"
    by blast
  with reconcile_frame [of ?s 4]
  have "map apellidos (official_students s') = map apellidos (official_students ?s)"
    and "map nombres (official_students s') = map nombres (official_students ?s)"
    and "map nombre_completo (official_students s') = map nombre_completo (official_students ?s)"
    and "map nombre_normalizado (official_students s') =
           map nombre_normalizado (official_students ?s)"
    and "form_attendees s' = form_attendees ?s"
    and "meet_attendance s' = meet_attendance ?s"
    by blast+
  moreover from run have "map asistencia (official_students s') = [str ''A'', str ''F'']"
    by (auto simp add: reconcile_def process_student_def find_matching_name_def name_score_def
        new_student_def truthy_def Let_def string_defs)
  ultimately show ?thesis
    using run by (simp add: new_student_def string_defs)
qed

subsection \<open>The indexes\<close>

lemma map_of_fold_update:
  "map_of (fold (\<lambda>(k, v). AList.update k v) es d) = map_of (rev es @ d)"
proof (induction es arbitrary: d)
  case Nil
  then show ?case by simp
next
  case (Cons e es)
  obtain k v where e: "e = (k, v)" by (cases e)
  have "map_of (rev es @ AList.update k v d) = map_of (rev es @ (k, v) # d)"
    by (simp add: map_of_append update_conv')
  with Cons.IH [of "AList.update k v d"] e show ?case by simp
qed

lemma distinct_fold_update:
  "distinct (map fst d) \<Longrightarrow> distinct (map fst (fold (\<lambda>(k, v). AList.update k v) es d))"
  by (induction es arbitrary: d) (auto simp: distinct_update)

lemma form_loop_fold:
  "form_loop ucd n rows d = fold (\<lambda>(k, v). AList.update k v) (form_entries ucd n rows) d"
  by (induction rows arbitrary: d) (auto split: option.splits)

lemma meet_loop_fold:
  "meet_loop pf ucd nc dc rows d =
     (case meet_entries pf ucd nc dc rows of
        Inl e \<Rightarrow> Inl e
      | Inr es \<Rightarrow> Inr (fold (\<lambda>(k, v). AList.update k v) es d))"
  by (induction rows arbitrary: d) (auto split: sum.splits option.splits)

text \<open>
  Claim C8: when the meeting index is built from the rows in order, a name that normalises
  to a key seen before overwrites the hours stored under that key: the index has one entry
  per key, and the hours found under a key are those of the last row with that key (the
  first binding of the key in the reversed list of entries), never a sum. In particular two
  rows with the same key leave the second row's hours. If a row raises, so does the loop.
  The form index likewise keeps, per normalised key, the name as written in the last row
  with that key.
\<close>

theorem index_last_write_wins:
  "(case meet_entries pyfloat ucd name_cols duration_col meet_rows of
      Inl e \<Rightarrow> meet_loop pyfloat ucd name_cols duration_col meet_rows [] = Inl e
    | Inr es \<Rightarrow>
        (\<exists>meet. meet_loop pyfloat ucd name_cols duration_col meet_rows [] = Inr meet \<and>
                distinct (map fst meet) \<and> map_of meet = map_of (rev es))) \<and>
   (meet_row pyfloat ucd name_cols duration_col r1 = Inr (Some (k, h1)) \<and>
    meet_row pyfloat ucd name_cols duration_col r2 = Inr (Some (k, h2)) \<longrightarrow>
    meet_loop pyfloat ucd name_cols duration_col [r1, r2] [] = Inr [(k, h2)]) \<and>
   distinct (map fst (form_loop ucd name_col_index form_rows [])) \<and>
   map_of (form_loop ucd name_col_index form_rows []) =
     map_of (rev (form_entries ucd name_col_index form_rows)) \<and>
   (form_row ucd name_col_index f1 = Some (k', v1) \<and>
    form_row ucd name_col_index f2 = Some (k', v2) \<longrightarrow>
    form_loop ucd name_col_index [f1, f2] [] = [(k', v2)])"
proof (intro conjI impI)
  show "case meet_entries pyfloat ucd name_cols duration_col meet_rows of
      Inl e \<Rightarrow> meet_loop pyfloat ucd name_cols duration_col meet_rows [] = Inl e
    | Inr es \<Rightarrow>
        (\<exists>meet. meet_loop pyfloat ucd name_cols duration_col meet_rows [] = Inr meet \<and>
                distinct (map fst meet) \<and> map_of meet = map_of (rev es))"
    by (simp add: meet_loop_fold map_of_fold_update distinct_fold_update split: sum.splits)
  show "distinct (map fst (form_loop ucd name_col_index form_rows []))"
    by (simp add: form_loop_fold distinct_fold_update)
  show "map_of (form_loop ucd name_col_index form_rows []) =
     map_of (rev (form_entries ucd name_col_index form_rows))"
    by (simp add: form_loop_fold map_of_fold_update)
next
  assume "meet_row pyfloat ucd name_cols duration_col r1 = Inr (Some (k, h1)) \<and>
    meet_row pyfloat ucd name_cols duration_col r2 = Inr (Some (k, h2))"
  then show "meet_loop pyfloat ucd name_cols duration_col [r1, r2] [] = Inr [(k, h2)]"
    by simp
next
  assume "form_row ucd name_col_index f1 = Some (k', v1) \<and>
    form_row ucd name_col_index f2 = Some (k', v2)"
  then show "form_loop ucd name_col_index [f1, f2] [] = [(k', v2)]"
    by simp
qed

text \<open>Two meeting rows and two form rows that normalise to one key each.\<close>

theorem index_last_write_wins_witness:
  "meet_row float_numeral ucd_identity [0] 1 [str ''Garcia Ana'', str ''1 h 0 min'']
     = Inr (Some (str ''GARCIA ANA'', 1)) \<and>
   meet_row float_numeral ucd_identity [0] 1 [str ''GARCIA,  ANA'', str ''2 h 30 min'']
     = Inr (Some (str ''GARCIA ANA'', 5 / 2)) \<and>
   meet_loop float_numeral ucd_identity [0] 1
     [[str ''Garcia Ana'', str ''1 h 0 min''], [str ''GARCIA,  ANA'', str ''2 h 30 min'']] []
     = Inr [(str ''GARCIA ANA'', 5 / 2)] \<and>
   form_row ucd_identity 0 [str ''Ana Garcia''] = Some (str ''ANA GARCIA'', str ''Ana Garcia'') \<and>
   form_row ucd_identity 0 [str ''ANA  GARCIA''] = Some (str ''ANA GARCIA'', str ''ANA  GARCIA'') \<and>
   form_loop ucd_identity 0 [[str ''Ana Garcia''], [str ''ANA  GARCIA'']] []
     = [(str ''ANA GARCIA'', str ''ANA  GARCIA'')]"
proof -
  have m1: "meet_row float_numeral ucd_identity [0] 1 [str ''Garcia Ana'', str ''1 h 0 min'']
              = Inr (Some (str ''GARCIA ANA'', 1))"
    by (simp add: meet_row_def convert_duration_to_hours_def float_numeral_def digit_of_def
        sublist_code prefix_code Let_def string_defs)
  have m2: "meet_row float_numeral ucd_identity [0] 1
              [str ''GARCIA,  ANA'', str ''2 h 30 min'']
              = Inr (Some (str ''GARCIA ANA'', 5 / 2))"
    by (simp add: meet_row_def convert_duration_to_hours_def float_numeral_def digit_of_def
        sublist_code prefix_code Let_def string_defs)
  have f1: "form_row ucd_identity 0 [str ''Ana Garcia'']
              = Some (str ''ANA GARCIA'', str ''Ana Garcia'')"
    by (simp add: form_row_def Let_def string_defs)
  have f2: "form_row ucd_identity 0 [str ''ANA  GARCIA'']
              = Some (str ''ANA GARCIA'', str ''ANA  GARCIA'')"
    by (simp add: form_row_def Let_def string_defs)
  from index_last_write_wins
    [where pyfloat = float_numeral and ucd = ucd_identity and name_cols = "[0]"
       and duration_col = 1 and meet_rows = "[]"
       and ?r1.0 = "[str ''Garcia Ana'', str ''1 h 0 min'']" and k = "str ''GARCIA ANA''"
       and ?h1.0 = 1 and ?r2.0 = "[str ''GARCIA,  ANA'', str ''2 h 30 min'']"
       and ?h2.0 = "5 / 2" and name_col_index = 0 and form_rows = "[]"
       and ?f1.0 = "[str ''Ana Garcia'']" and k' = "str ''ANA GARCIA''"
       and ?v1.0 = "str ''Ana Garcia''" and ?f2.0 = "[str ''ANA  GARCIA'']"
       and ?v2.0 = "str ''ANA  GARCIA''"]
    m1 m2 f1 f2
  show ?thesis by blast
qed

subsection \<open>The duration text\<close>

lemma split_on_no_sep: "sep \<notin> set a \<Longrightarrow> split_on sep a = [a]"
  by (induction a) auto

lemma split_on_append:
  "sep \<notin> set a \<Longrightarrow> split_on sep (a @ sep # b) = a # split_on sep b"
  by (induction a) auto

lemma str_space: "str '' '' = [0x20]"
  by (simp add: str_def)

lemma parts_two:
  assumes "0x20 \<notin> set H" "0x20 \<notin> set U"
  shows "split_on 0x20 (H @ str '' '' @ U) = [H, U]"
  using split_on_append [OF assms(1), of U] split_on_no_sep [OF assms(2)]
  by (simp add: str_space)

lemma parts_three:
  assumes "0x20 \<notin> set H" "0x20 \<notin> set U" "0x20 \<notin> set M"
  shows "split_on 0x20 (H @ str '' '' @ U @ str '' '' @ M) = [H, U, M]"
  using split_on_append [OF assms(1), of "U @ str '' '' @ M"] parts_two [OF assms(2,3)]
  by (simp add: str_space)

lemma parts_four:
  assumes "0x20 \<notin> set H" "0x20 \<notin> set U" "0x20 \<notin> set M" "0x20 \<notin> set V"
  shows "split_on 0x20 (H @ str '' '' @ U @ str '' '' @ M @ str '' '' @ V) = [H, U, M, V]"
  using split_on_append [OF assms(1), of "U @ str '' '' @ M @ str '' '' @ V"]
    parts_three [OF assms(2,3,4)]
  by (simp add: str_space)

lemma parts_more:
  assumes "0x20 \<notin> set H" "0x20 \<notin> set U" "0x20 \<notin> set M" "0x20 \<notin> set V"
  shows "split_on 0x20 (H @ str '' '' @ U @ str '' '' @ M @ str '' '' @ V @ str '' '' @ rest)
           = H # U # M # V # split_on 0x20 rest"
proof -
  have 4: "split_on 0x20 (V @ 0x20 # rest) = V # split_on 0x20 rest"
    by (rule split_on_append [OF assms(4)])
  have 3: "split_on 0x20 (M @ 0x20 # V @ 0x20 # rest) = M # V # split_on 0x20 rest"
    using split_on_append [OF assms(3), of "V @ 0x20 # rest"] 4 by simp
  have 2: "split_on 0x20 (U @ 0x20 # M @ 0x20 # V @ 0x20 # rest)
             = U # M # V # split_on 0x20 rest"
    using split_on_append [OF assms(2), of "M @ 0x20 # V @ 0x20 # rest"] 3 by simp
  show ?thesis
    using split_on_append [OF assms(1), of "U @ 0x20 # M @ 0x20 # V @ 0x20 # rest"] 2
    by (simp add: str_space)
qed

lemma convert_on_parts:
  assumes "split_on 0x20 d = parts"
  shows "convert_duration_to_hours pyfloat (Some d) =
     (case (if length parts \<ge> 2 \<and> 0x68 \<in> set (parts ! 1)
            then pyfloat (parts ! 0) else Inr 0) of
        Inl e \<Rightarrow> Inl e
      | Inr hours \<Rightarrow>
          (case (if length parts \<ge> 4 \<and> sublist (str ''min'') (parts ! 3)
                 then pyfloat (parts ! 2) else Inr 0) of
             Inl e \<Rightarrow> Inl e
           | Inr minutes \<Rightarrow> Inr (hours + minutes / 60)))"
  using assms by (simp add: convert_duration_to_hours_def Let_def)

lemma convert_one_token:
  assumes "0x20 \<notin> set s"
  shows "convert_duration_to_hours pyfloat (Some s) = Inr 0"
  unfolding convert_on_parts [OF split_on_no_sep [OF assms]] by simp

lemma convert_two_tokens:
  assumes "0x20 \<notin> set H" "0x20 \<notin> set U"
  shows "convert_duration_to_hours pyfloat (Some (H @ str '' '' @ U)) =
           (if 0x68 \<in> set U then pyfloat H else Inr 0)"
  unfolding convert_on_parts [OF parts_two [OF assms]]
  by (simp split: sum.splits)

lemma convert_three_tokens:
  assumes "0x20 \<notin> set H" "0x20 \<notin> set U" "0x20 \<notin> set M"
  shows "convert_duration_to_hours pyfloat (Some (H @ str '' '' @ U @ str '' '' @ M)) =
           (if 0x68 \<in> set U then pyfloat H else Inr 0)"
  unfolding convert_on_parts [OF parts_three [OF assms]]
  by (simp split: sum.splits)

lemma convert_four_tokens:
  assumes "0x20 \<notin> set H" "0x20 \<notin> set U" "0x20 \<notin> set M" "0x20 \<notin> set V"
  shows "convert_duration_to_hours pyfloat
           (Some (H @ str '' '' @ U @ str '' '' @ M @ str '' '' @ V)) =
     (case (if 0x68 \<in> set U then pyfloat H else Inr 0) of
        Inl e \<Rightarrow> Inl e
      | Inr hours \<Rightarrow>
          (case (if sublist (str ''min'') V then pyfloat M else Inr 0) of
             Inl e \<Rightarrow> Inl e
           | Inr minutes \<Rightarrow> Inr (hours + minutes / 60)))"
  unfolding convert_on_parts [OF parts_four [OF assms]] by (simp split: sum.splits)

lemma convert_more_tokens:
  assumes "0x20 \<notin> set H" "0x20 \<notin> set U" "0x20 \<notin> set M" "0x20 \<notin> set V"
  shows "convert_duration_to_hours pyfloat
           (Some (H @ str '' '' @ U @ str '' '' @ M @ str '' '' @ V @ str '' '' @ rest)) =
     (case (if 0x68 \<in> set U then pyfloat H else Inr 0) of
        Inl e \<Rightarrow> Inl e
      | Inr hours \<Rightarrow>
          (case (if sublist (str ''min'') V then pyfloat M else Inr 0) of
             Inl e \<Rightarrow> Inl e
           | Inr minutes \<Rightarrow> Inr (hours + minutes / 60)))"
  unfolding convert_on_parts [OF parts_more [OF assms]] by (simp split: sum.splits)

lemma h_in_h: "0x68 \<in> set (str ''h'')"
  by (simp add: str_def)

lemma min_in_min: "sublist (str ''min'') (str ''min'')"
  by simp

lemma no_space_h: "0x20 \<notin> set (str ''h'')"
  by (simp add: str_def)

lemma no_space_min: "0x20 \<notin> set (str ''min'')"
  by (simp add: str_def)

lemma str_h_pattern: "H @ str '' h '' @ M @ str '' min'' =
    H @ str '' '' @ str ''h'' @ str '' '' @ M @ str '' '' @ str ''min''"
  by (simp add: str_def)

lemma str_h_only: "H @ str '' h'' = H @ str '' '' @ str ''h''"
  by (simp add: str_def)

lemma str_h_rest: "H @ str '' h '' @ rest = H @ str '' '' @ str ''h'' @ str '' '' @ rest"
  by (simp add: str_def)

lemma str_min_end: "M @ str '' min'' = M @ str '' '' @ str ''min''"
  by (simp add: str_def)

text \<open>
  Claim C4 says that missing or malformed parts default to 0 for every input text. A
  number that \<open>float\<close> rejects in front of the unit marker \<open>h\<close> does not: the conversion
  raises \<open>ValueError\<close> (and the caller abandons the run).
\<close>

theorem duration_rejected_number_raises:
  "float_numeral (str ''x'') = Inl ValueError \<and>
   convert_duration_to_hours float_numeral (Some (str ''x h 30 min'')) = Inl ValueError"
  by (simp add: convert_duration_to_hours_def float_numeral_def digit_of_def str_def)

text \<open>
  Claim C4, amended: the text is cut at single spaces. The first token counts as hours
  exactly when there is a second token that contains \<open>h\<close>, and the third token counts as
  minutes exactly when there is a fourth token that contains \<open>min\<close> (in lower case); a part
  that does not count is 0 and is not read. So a text \<open><H> h <M> min\<close> gives H + M/60
  whenever \<open>float\<close> accepts H and M; a missing value, a text without a space, a text
  \<open><H> h\<close> or \<open><H> h <M>\<close> without the minutes marker, and a part whose unit token lacks
  its marker count as 0 for that part; a number that \<open>float\<close> rejects in front of its
  marker raises the error of \<open>float\<close> instead of counting as 0. The last four conjuncts
  give the result for every text of two, three, four and more tokens.
\<close>

theorem duration_conversion:
  "(0x20 \<notin> set H \<and> 0x20 \<notin> set M \<and> pyfloat H = Inr h \<and> pyfloat M = Inr m \<longrightarrow>
      convert_duration_to_hours pyfloat (Some (H @ str '' h '' @ M @ str '' min''))
        = Inr (h + m / 60)) \<and>
   convert_duration_to_hours pyfloat None = Inr 0 \<and>
   (0x20 \<notin> set s \<longrightarrow> convert_duration_to_hours pyfloat (Some s) = Inr 0) \<and>
   (0x20 \<notin> set H \<and> pyfloat H = Inr h \<longrightarrow>
      convert_duration_to_hours pyfloat (Some (H @ str '' h'')) = Inr h) \<and>
   (0x20 \<notin> set H \<and> 0x20 \<notin> set U \<and> 0x68 \<notin> set U \<and>
    0x20 \<notin> set M \<and> pyfloat M = Inr m \<longrightarrow>
      convert_duration_to_hours pyfloat (Some (H @ str '' '' @ U @ str '' '' @ M @ str '' min''))
        = Inr (m / 60)) \<and>
   (0x20 \<notin> set H \<and> pyfloat H = Inl e \<longrightarrow>
      convert_duration_to_hours pyfloat (Some (H @ str '' h '' @ rest)) = Inl e) \<and>
   (0x20 \<notin> set H \<and> 0x20 \<notin> set M \<and> pyfloat H = Inr h \<and> pyfloat M = Inl e \<longrightarrow>
      convert_duration_to_hours pyfloat (Some (H @ str '' h '' @ M @ str '' min'')) = Inl e) \<and>
   (0x20 \<notin> set H \<and> 0x20 \<notin> set M \<and> 0x20 \<notin> set V \<and> \<not> sublist (str ''min'') V \<and>
    pyfloat H = Inr h \<longrightarrow>
      convert_duration_to_hours pyfloat (Some (H @ str '' h '' @ M @ str '' '' @ V)) = Inr h) \<and>
   (0x20 \<notin> set H \<and> 0x20 \<notin> set U \<longrightarrow>
      convert_duration_to_hours pyfloat (Some (H @ str '' '' @ U))
        = (if 0x68 \<in> set U then pyfloat H else Inr 0)) \<and>
   (0x20 \<notin> set H \<and> 0x20 \<notin> set U \<and> 0x20 \<notin> set M \<longrightarrow>
      convert_duration_to_hours pyfloat (Some (H @ str '' '' @ U @ str '' '' @ M))
        = (if 0x68 \<in> set U then pyfloat H else Inr 0)) \<and>
   (0x20 \<notin> set H \<and> 0x20 \<notin> set U \<and> 0x20 \<notin> set M \<and> 0x20 \<notin> set V \<longrightarrow>
      convert_duration_to_hours pyfloat
          (Some (H @ str '' '' @ U @ str '' '' @ M @ str '' '' @ V))
        = (case (if 0x68 \<in> set U then pyfloat H else Inr 0) of
             Inl e \<Rightarrow> Inl e
           | Inr hours \<Rightarrow>
               (case (if sublist (str ''min'') V then pyfloat M else Inr 0) of
                  Inl e \<Rightarrow> Inl e
                | Inr minutes \<Rightarrow> Inr (hours + minutes / 60))) \<and>
      convert_duration_to_hours pyfloat
          (Some (H @ str '' '' @ U @ str '' '' @ M @ str '' '' @ V @ str '' '' @ rest))
        = (case (if 0x68 \<in> set U then pyfloat H else Inr 0) of
             Inl e \<Rightarrow> Inl e
           | Inr hours \<Rightarrow>
               (case (if sublist (str ''min'') V then pyfloat M else Inr 0) of
                  Inl e \<Rightarrow> Inl e
                | Inr minutes \<Rightarrow> Inr (hours + minutes / 60))))"
proof (intro conjI impI; (elim conjE)?)
  show "convert_duration_to_hours pyfloat None = Inr 0"
    by (simp add: convert_duration_to_hours_def)
next
  assume "0x20 \<notin> set s"
  then show "convert_duration_to_hours pyfloat (Some s) = Inr 0"
    by (rule convert_one_token)
next
  assume a: "0x20 \<notin> set H" "0x20 \<notin> set M" "pyfloat H = Inr h" "pyfloat M = Inr m"
  show "convert_duration_to_hours pyfloat (Some (H @ str '' h '' @ M @ str '' min''))
        = Inr (h + m / 60)"
    unfolding str_h_pattern
    using convert_four_tokens [OF a(1) no_space_h a(2) no_space_min, of pyfloat] a(3,4)
    by (simp add: h_in_h)
next
  assume a: "0x20 \<notin> set H" "pyfloat H = Inr h"
  show "convert_duration_to_hours pyfloat (Some (H @ str '' h'')) = Inr h"
    unfolding str_h_only
    using convert_two_tokens [OF a(1) no_space_h, of pyfloat] a(2)
    by (simp add: h_in_h)
next
  assume a: "0x20 \<notin> set H" "0x20 \<notin> set U" "0x68 \<notin> set U" "0x20 \<notin> set M"
    "pyfloat M = Inr m"
  show "convert_duration_to_hours pyfloat
          (Some (H @ str '' '' @ U @ str '' '' @ M @ str '' min'')) = Inr (m / 60)"
    unfolding str_min_end
    using convert_four_tokens [OF a(1,2,4) no_space_min, of pyfloat] a(3,5)
    by simp
next
  assume a: "0x20 \<notin> set H" "pyfloat H = Inl e"
  have "split_on 0x20 (str ''h'' @ 0x20 # rest) = str ''h'' # split_on 0x20 rest"
    by (rule split_on_append [OF no_space_h])
  with split_on_append [OF a(1), of "str ''h'' @ 0x20 # rest"]
  have "split_on 0x20 (H @ str '' '' @ str ''h'' @ str '' '' @ rest)
          = H # str ''h'' # split_on 0x20 rest"
    by (simp add: str_space)
  from convert_on_parts [OF this, of pyfloat] a(2)
  show "convert_duration_to_hours pyfloat (Some (H @ str '' h '' @ rest)) = Inl e"
    unfolding str_h_rest by (simp add: h_in_h)
next
  assume a: "0x20 \<notin> set H" "0x20 \<notin> set M" "pyfloat H = Inr h" "pyfloat M = Inl e"
  show "convert_duration_to_hours pyfloat (Some (H @ str '' h '' @ M @ str '' min'')) = Inl e"
    unfolding str_h_pattern
    using convert_four_tokens [OF a(1) no_space_h a(2) no_space_min, of pyfloat] a(3,4)
    by (simp add: h_in_h)
next
  assume a: "0x20 \<notin> set H" "0x20 \<notin> set M" "0x20 \<notin> set V" "\<not> sublist (str ''min'') V"
    "pyfloat H = Inr h"
  show "convert_duration_to_hours pyfloat (Some (H @ str '' h '' @ M @ str '' '' @ V)) = Inr h"
    unfolding str_h_rest
    using convert_four_tokens [OF a(1) no_space_h a(2,3), of pyfloat] a(4,5)
    by (simp add: h_in_h)
next
  assume a: "0x20 \<notin> set H" "0x20 \<notin> set U"
  show "convert_duration_to_hours pyfloat (Some (H @ str '' '' @ U))
        = (if 0x68 \<in> set U then pyfloat H else Inr 0)"
    by (rule convert_two_tokens [OF a])
next
  assume a: "0x20 \<notin> set H" "0x20 \<notin> set U" "0x20 \<notin> set M"
  show "convert_duration_to_hours pyfloat (Some (H @ str '' '' @ U @ str '' '' @ M))
        = (if 0x68 \<in> set U then pyfloat H else Inr 0)"
    by (rule convert_three_tokens [OF a])
next
  assume a: "0x20 \<notin> set H" "0x20 \<notin> set U" "0x20 \<notin> set M" "0x20 \<notin> set V"
  show "convert_duration_to_hours pyfloat
          (Some (H @ str '' '' @ U @ str '' '' @ M @ str '' '' @ V))
        = (case (if 0x68 \<in> set U then pyfloat H else Inr 0) of
             Inl e \<Rightarrow> Inl e
           | Inr hours \<Rightarrow>
               (case (if sublist (str ''min'') V then pyfloat M else Inr 0) of
                  Inl e \<Rightarrow> Inl e
                | Inr minutes \<Rightarrow> Inr (hours + minutes / 60)))"
    by (rule convert_four_tokens [OF a])
  show "convert_duration_to_hours pyfloat
          (Some (H @ str '' '' @ U @ str '' '' @ M @ str '' '' @ V @ str '' '' @ rest))
        = (case (if 0x68 \<in> set U then pyfloat H else Inr 0) of
             Inl e \<Rightarrow> Inl e
           | Inr hours \<Rightarrow>
               (case (if sublist (str ''min'') V then pyfloat M else Inr 0) of
                  Inl e \<Rightarrow> Inl e
                | Inr minutes \<Rightarrow> Inr (hours + minutes / 60)))"
    by (rule convert_more_tokens [OF a])
qed

text \<open>\<open>4 h 30 min\<close> is 4.5 hours and \<open>3 h 50 min\<close> is within 0.01 of 3.83 hours (23/6 in
  the rationals of the model); \<open>MIN\<close> in capitals, a missing fourth token and \<open>45 min\<close>
  alone give no minutes.\<close>

theorem duration_conversion_witness:
  "convert_duration_to_hours float_numeral (Some (str ''4 h 30 min'')) = Inr (9 / 2) \<and>
   convert_duration_to_hours float_numeral (Some (str ''3 h 50 min'')) = Inr (23 / 6) \<and>
   \<bar>23 / 6 - 383 / 100\<bar> < (1 / 100 :: rat) \<and>
   convert_duration_to_hours float_numeral (Some (str ''4 h'')) = Inr 4 \<and>
   convert_duration_to_hours float_numeral (Some (str ''4 horas 30 minutos'')) = Inr (9 / 2) \<and>
   convert_duration_to_hours float_numeral (Some (str ''4 h 30 MIN'')) = Inr 4 \<and>
   convert_duration_to_hours float_numeral (Some (str ''4 h 30'')) = Inr 4 \<and>
   convert_duration_to_hours float_numeral (Some (str ''45 min'')) = Inr 0 \<and>
   convert_duration_to_hours float_numeral (Some (str ''4 x 30 min'')) = Inr (1 / 2) \<and>
   convert_duration_to_hours float_numeral (Some (str ''30min'')) = Inr 0"
  using duration_conversion [where pyfloat = float_numeral and H = "str ''4''"
      and M = "str ''30''" and h = 4 and m = 30 and s = "str ''30min''" and U = "str ''x''"
      and V = "str ''MIN''"]
    duration_conversion [where pyfloat = float_numeral and H = "str ''3''"
      and M = "str ''50''" and h = 3 and m = 50 and U = "str ''horas''"]
    duration_conversion [where pyfloat = float_numeral and H = "str ''45''"
      and U = "str ''min''"]
  by (simp add: float_numeral_def digit_of_def convert_duration_to_hours_def sublist_code
      prefix_code str_def)

subsection \<open>The best match\<close>

text \<open>For a target with at least one word no division fails, and the loop returns the
  first candidate of the highest score when that score exceeds 1/2, and no match
  otherwise.\<close>

lemma match_loop_first_best:
  assumes "\<forall>n \<in> set names. name_score tw n = Inr (sc n)"
  shows "((\<forall>n \<in> set names. \<not> (sc n > bs \<and> sc n > 1 / 2)) \<and>
          match_loop tw names bm bs = Inr bm) \<or>
         (\<exists>pre n post. names = pre @ n # post \<and> match_loop tw names bm bs = Inr (Some n) \<and>
            sc n > bs \<and> sc n > 1 / 2 \<and>
            (\<forall>p \<in> set pre. sc p < sc n) \<and> (\<forall>q \<in> set post. sc q \<le> sc n))"
  using assms
proof (induction names arbitrary: bm bs)
  case Nil
  then show ?case by simp
next
  case (Cons x rest)
  then have x: "name_score tw x = Inr (sc x)"
    and rest: "\<forall>n \<in> set rest. name_score tw n = Inr (sc n)"
    by simp_all
  show ?case
  proof (cases "sc x > bs \<and> sc x > 1 / 2")
    case True
    with x have step: "match_loop tw (x # rest) bm bs = match_loop tw rest (Some x) (sc x)"
      by simp
    from Cons.IH [OF rest, of "sc x" "Some x"] show ?thesis
    proof (elim disjE conjE exE)
      assume none: "\<forall>n \<in> set rest. \<not> (sc n > sc x \<and> sc n > 1 / 2)"
        and res: "match_loop tw rest (Some x) (sc x) = Inr (Some x)"
      from none True have "\<forall>q \<in> set rest. sc q \<le> sc x" by fastforce
      with step res True have "x # rest = [] @ x # rest \<and>
          match_loop tw (x # rest) bm bs = Inr (Some x) \<and> sc x > bs \<and> sc x > 1 / 2 \<and>
          (\<forall>p \<in> set []. sc p < sc x) \<and> (\<forall>q \<in> set rest. sc q \<le> sc x)"
        by simp
      then show ?thesis by blast
    next
      fix pre n post
      assume dec: "rest = pre @ n # post"
        and res: "match_loop tw rest (Some x) (sc x) = Inr (Some n)"
        and gt: "sc x < sc n" "1 / 2 < sc n"
        and pre: "\<forall>p \<in> set pre. sc p < sc n" and post: "\<forall>q \<in> set post. sc q \<le> sc n"
      from dec step res gt pre post True
      have "x # rest = (x # pre) @ n # post \<and>
          match_loop tw (x # rest) bm bs = Inr (Some n) \<and> sc n > bs \<and> sc n > 1 / 2 \<and>
          (\<forall>p \<in> set (x # pre). sc p < sc n) \<and> (\<forall>q \<in> set post. sc q \<le> sc n)"
        by auto
      then show ?thesis by blast
    qed
  next
    case False
    with x have step: "match_loop tw (x # rest) bm bs = match_loop tw rest bm bs"
      by auto
    from Cons.IH [OF rest, of bs bm] show ?thesis
    proof (elim disjE conjE exE)
      assume "\<forall>n \<in> set rest. \<not> (sc n > bs \<and> sc n > 1 / 2)"
        and "match_loop tw rest bm bs = Inr bm"
      with step False show ?thesis by auto
    next
      fix pre n post
      assume dec: "rest = pre @ n # post"
        and res: "match_loop tw rest bm bs = Inr (Some n)"
        and gt: "bs < sc n" "1 / 2 < sc n"
        and pre: "\<forall>p \<in> set pre. sc p < sc n" and post: "\<forall>q \<in> set post. sc q \<le> sc n"
      from False gt have "sc x < sc n" by auto
      with dec step res gt pre post
      have "x # rest = (x # pre) @ n # post \<and>
          match_loop tw (x # rest) bm bs = Inr (Some n) \<and> sc n > bs \<and> sc n > 1 / 2 \<and>
          (\<forall>p \<in> set (x # pre). sc p < sc n) \<and> (\<forall>q \<in> set post. sc q \<le> sc n)"
        by auto
      then show ?thesis by blast
    qed
  qed
qed

lemma name_score_spec_score:
  assumes "split t \<noteq> []"
  shows "name_score (set (split t)) n = Inr (spec_score t n)"
proof -
  from assms have "card (set (split t)) > 0" by (simp add: card_gt_0_iff)
  with assms show ?thesis by (simp add: name_score_def spec_score_def Let_def)
qed

lemma find_matching_name_first_best:
  assumes "t \<noteq> []" "t \<notin> set names" "split t \<noteq> []"
  shows "((\<forall>n \<in> set names. spec_score t n \<le> 1 / 2) \<and> find_matching_name t names = Inr None) \<or>
         (\<exists>pre n post. names = pre @ n # post \<and> find_matching_name t names = Inr (Some n) \<and>
            spec_score t n > 1 / 2 \<and>
            (\<forall>p \<in> set pre. spec_score t p < spec_score t n) \<and>
            (\<forall>q \<in> set post. spec_score t q \<le> spec_score t n))"
proof -
  have fm: "find_matching_name t names = match_loop (set (split t)) names None 0"
    using assms(1,2) by (simp add: find_matching_name_def)
  have "\<forall>n \<in> set names. name_score (set (split t)) n = Inr (spec_score t n)"
    by (simp add: name_score_spec_score [OF assms(3)])
  from match_loop_first_best [OF this, of 0 None] show ?thesis
    unfolding fm by (auto simp: not_less)
qed

text \<open>
  Claim C2 describes the result of \<open>find_matching_name\<close> for every non-empty target that is
  not among the candidates: the first candidate of the highest score if that score exceeds
  0.5, no match otherwise. For the target of one space (the normalised form of \<open>. .\<close>) and
  the empty candidate (the normalised form of \<open>.\<close>) both word sets are empty, the division
  of line 60 raises \<open>ZeroDivisionError\<close>, and the whole run ends with it.
\<close>

theorem find_matching_name_zero_division:
  "normalize_name ucd (Some (str ''. .'')) = str '' '' \<and>
   normalize_name ucd (Some (str ''.'')) = str '''' \<and>
   find_matching_name (str '' '') [str ''''] = Inl ZeroDivisionError \<and>
   process_attendance float_numeral ucd [[str ''.'', str ''.'']] 0 [[str ''.'']] [0] 1 [] 4
     = Inl ZeroDivisionError"
  by (simp add: process_attendance_def reconcile_def process_student_def form_row_def
      find_matching_name_def name_score_def new_student_def Let_def string_defs)

text \<open>
  Claim C10 says that \<open>find_matching_name\<close> returns no match or a member of the
  candidates, for every target and every candidate list. For the target of one space and
  the candidates \<open>ANA GARCIA\<close> and the empty string it returns nothing: the second
  candidate raises \<open>ZeroDivisionError\<close>.
\<close>

theorem find_matching_name_raises:
  "find_matching_name (str '' '') [str ''ANA GARCIA'', str ''''] = Inl ZeroDivisionError"
  by (simp add: find_matching_name_def name_score_def Let_def string_defs)

end
